theory Spec2Isabelle
  imports Main "HOL-Library.Word"
begin

section \<open>Data model (crypto/types.ts)\<close>

text \<open>
  A \<open>Uint8Array\<close> is a list of bytes. A JavaScript string is represented by its UTF-8
  bytes, one \<open>char\<close> each, so \<open>TextEncoder.encode\<close> is the bytewise reading below.
\<close>

type_synonym bytes = "8 word list"

record KeyPair =
  publicKey :: bytes
  privateKey :: bytes

record PreKey =
  keyId :: int
  keyPair :: KeyPair

text \<open>The interface \<open>SignedPreKey\<close> has the two fields of \<open>PreKey\<close> and two more.\<close>

record SignedPreKey = PreKey +
  signature :: bytes
  timestamp :: int

record SessionState =
  sessionId :: string
  remoteIdentityKey :: bytes
  rootKey :: bytes
  chainKey :: bytes
  sendingChainKey :: "bytes option"
  receivingChainKey :: "bytes option"
  messageNumber :: int
  previousCounter :: int

record PreKeyBundle =
  identityKey :: bytes
  signedPreKey :: bytes
  signedPreKeyId :: int
  signedPreKeySignature :: bytes
  preKey :: "bytes option"
  preKeyId :: "int option"
  registrationId :: int

record MessageKeys =
  cipherKey :: bytes
  macKey :: bytes
  iv :: bytes

datatype MessageType = prekey | message

text \<open>
  \<open>EncryptedMessage\<close>; the four fields it shares by name with \<open>PreKeyBundle\<close> carry
  the prefix \<open>msg\<close> here, and \<open>type\<close> is \<open>msgType\<close>.
\<close>

record EncryptedMessage =
  msgType :: MessageType
  msgRegistrationId :: int
  messageVersion :: int
  ciphertext :: bytes
  msgPreKeyId :: "int option"
  msgSignedPreKeyId :: "int option"
  baseKey :: "bytes option"
  msgIdentityKey :: "bytes option"

section \<open>Third-party libraries\<close>

text \<open>A word array of CryptoJS: 32-bit words, of which the first \<open>sigBytes\<close> bytes count.\<close>

record WordArray =
  words :: "32 word list"
  sigBytes :: nat

text \<open>
  The code calls CryptoJS, @noble/curves and the platform's \<open>TextDecoder\<close>. None of them
  is part of the repository, so every function below takes them as the parameter \<open>L\<close>.
  \<^item> \<open>HmacSHA256 message key\<close> is the digest of \<open>CryptoJS.HmacSHA256\<close> on the two word
    arrays made from the byte arrays: 256 bits, held by CryptoJS as eight 32-bit words.
  \<^item> \<open>AES_encrypt plaintext key iv\<close> is \<open>CryptoJS.AES.encrypt\<close> in CBC mode with PKCS7
    padding, printed by \<open>toString()\<close> (Base64).
  \<^item> \<open>AES_decrypt ciphertext key iv\<close> is \<open>CryptoJS.AES.decrypt\<close> with the same options,
    read by \<open>toString(CryptoJS.enc.Utf8)\<close>, which throws on malformed UTF-8: \<open>None\<close>.
  \<^item> \<open>x25519_getPublicKey\<close> and \<open>x25519_getSharedSecret\<close> throw on keys they refuse:
    \<open>None\<close>.
  \<^item> \<open>ed25519_verify signature message publicKey\<close> is \<open>None\<close> when it throws.
  \<^item> \<open>TextDecoder_decode\<close> is \<open>new TextDecoder().decode\<close>.
  \<^item> \<open>Base64_stringify bytes\<close> is \<open>CryptoJS.enc.Base64.stringify\<close> on the word array
    made from the bytes, and \<open>Base64_parse\<close> is \<open>CryptoJS.enc.Base64.parse\<close>.
\<close>

record lib =
  HmacSHA256 :: "bytes \<Rightarrow> bytes \<Rightarrow> 256 word"
  AES_encrypt :: "string \<Rightarrow> bytes \<Rightarrow> bytes \<Rightarrow> string"
  AES_decrypt :: "string \<Rightarrow> bytes \<Rightarrow> bytes \<Rightarrow> string option"
  x25519_getPublicKey :: "bytes \<Rightarrow> bytes option"
  x25519_getSharedSecret :: "bytes \<Rightarrow> bytes \<Rightarrow> bytes option"
  ed25519_verify :: "bytes \<Rightarrow> bytes \<Rightarrow> bytes \<Rightarrow> bool option"
  TextDecoder_decode :: "bytes \<Rightarrow> string"
  Base64_stringify :: "bytes \<Rightarrow> string"
  Base64_parse :: "string \<Rightarrow> WordArray"

text \<open>\<open>hmac.words\<close>: the eight words of a digest, most significant first.\<close>

definition hmac_words :: "256 word \<Rightarrow> 32 word list" where
  "hmac_words d = map (\<lambda>i. ucast (drop_bit (32 * (7 - i)) d)) [0..<8]"

text \<open>\<open>new TextEncoder().encode(s)\<close>.\<close>

definition TextEncoder_encode :: "string \<Rightarrow> bytes" where
  "TextEncoder_encode s = map (\<lambda>c. of_nat (of_char c)) s"

text \<open>\<open>new Uint8Array(n)\<close>: \<open>n\<close> zero bytes.\<close>

definition new_Uint8Array :: "nat \<Rightarrow> bytes" where
  "new_Uint8Array n = replicate n 0"

text \<open>
  \<open>target.set(source, offset)\<close>, for a source that fits (\<open>offset + source.length \<le>
  target.length\<close>; JavaScript throws a RangeError otherwise, and \<open>hkdf_set_fits\<close> below
  shows that the call in \<open>hkdf\<close> always fits).
\<close>

definition set_bytes :: "bytes \<Rightarrow> bytes \<Rightarrow> nat \<Rightarrow> bytes" where
  "set_bytes target source offset =
     take offset target @ source @ drop (offset + length source) target"

section \<open>Primitive layer (crypto/utils.ts)\<close>

definition aes256Encrypt :: "lib \<Rightarrow> string \<Rightarrow> bytes \<Rightarrow> bytes \<Rightarrow> string" where
  "aes256Encrypt L plaintext key iv' = AES_encrypt L plaintext key iv'"

definition aes256Decrypt :: "lib \<Rightarrow> string \<Rightarrow> bytes \<Rightarrow> bytes \<Rightarrow> string option" where
  "aes256Decrypt L ciphertext' key iv' = AES_decrypt L ciphertext' key iv'"

text \<open>
  \<open>hmacSha256\<close> computes the digest \<open>hmac\<close> and returns \<open>new Uint8Array(hmac.words.length * 4)\<close>:
  an array of that length which nothing writes to.
\<close>

definition hmacSha256 :: "lib \<Rightarrow> bytes \<Rightarrow> bytes \<Rightarrow> bytes" where
  "hmacSha256 L message' key =
     (let hmac = HmacSHA256 L message' key
      in new_Uint8Array (length (hmac_words hmac) * 4))"

text \<open>
  The expand loop of \<open>hkdf\<close>, in the variables of the source: \<open>output\<close>, \<open>t\<close>, \<open>offset\<close>
  and \<open>counter\<close>. Writing \<open>counter\<close> into a \<open>Uint8Array\<close> keeps its low eight bits.
  The requested length is a natural number. The loop ends because \<open>hmacSha256\<close>
  returns 32 bytes, so that \<open>offset\<close> grows in every round.
\<close>

function hkdf_loop ::
  "lib \<Rightarrow> bytes \<Rightarrow> bytes \<Rightarrow> nat \<Rightarrow> bytes \<Rightarrow> bytes \<Rightarrow> nat \<Rightarrow> nat \<Rightarrow> bytes" where
  "hkdf_loop L prk info len output t offset counter =
     (if offset < len then
        let data = t @ info @ [of_nat counter];
            t' = hmacSha256 L data prk;
            remaining = len - offset;
            toCopy = min (length t') remaining
        in hkdf_loop L prk info len (set_bytes output (take toCopy t') offset) t'
             (offset + toCopy) (counter + 1)
      else output)"
  by pat_completeness auto
termination
  by (relation "measure (\<lambda>(L, prk, info, len, output, t, offset, counter). len - offset)")
     (auto simp: hmacSha256_def hmac_words_def new_Uint8Array_def)

declare hkdf_loop.simps [simp del]

definition hkdf :: "lib \<Rightarrow> bytes \<Rightarrow> bytes \<Rightarrow> bytes \<Rightarrow> nat \<Rightarrow> bytes" where
  "hkdf L inputKeyMaterial salt info len =
     (let prk = hmacSha256 L inputKeyMaterial salt
      in hkdf_loop L prk info len (new_Uint8Array len) [] 0 1)"

text \<open>
  \<open>base64ToUint8Array\<close>: four bytes from every word, most significant first, cut at
  \<open>sigBytes\<close>.
\<close>

definition base64ToUint8Array :: "lib \<Rightarrow> string \<Rightarrow> bytes" where
  "base64ToUint8Array L base64 =
     (let wordArray = Base64_parse L base64;
          bytes = concat (map (\<lambda>word.
            [ucast (drop_bit 24 word), ucast (drop_bit 16 word),
             ucast (drop_bit 8 word), ucast word]) (words wordArray))
      in take (sigBytes wordArray) bytes)"

definition uint8ArrayToBase64 :: "lib \<Rightarrow> bytes \<Rightarrow> string" where
  "uint8ArrayToBase64 L bytes = Base64_stringify L bytes"

text \<open>\<open>a.slice(i, j)\<close> for \<open>0 \<le> i \<le> j\<close>; like JavaScript, it stops at the end of \<open>a\<close>.\<close>

definition slice_bytes :: "bytes \<Rightarrow> nat \<Rightarrow> nat \<Rightarrow> bytes" where
  "slice_bytes a i j = take (j - i) (drop i a)"

section \<open>What a call reads from outside\<close>

text \<open>
  The clock, the random generators and the device's key storage are read, never computed:
  \<open>dateNow\<close> is \<open>Date.now()\<close> in decimal, \<open>mathRandom\<close> is
  \<open>Math.random().toString(36)\<close>, \<open>generateRandomBytes n\<close> the array the generator of
  utils.ts returns for the length \<open>n\<close>, \<open>getIdentityKeyPair\<close>, \<open>getSignedPreKey\<close> and
  \<open>getSession\<close> what keyStorage.ts returns (\<open>None\<close> for \<open>null\<close>), and \<open>getBundle userId\<close>
  the bundle decoded from the server's answer to \<open>GET /keys/userId\<close>.
\<close>

record world =
  dateNow :: string
  mathRandom :: string
  generateRandomBytes :: "nat \<Rightarrow> bytes"
  getIdentityKeyPair :: "KeyPair option"
  getSignedPreKey :: "SignedPreKey option"
  getSession :: "string \<Rightarrow> SessionState option"
  getBundle :: "string \<Rightarrow> PreKeyBundle"

text \<open>Every \<open>throw\<close> of the code and of the libraries it calls.\<close>

datatype error =
    CurveError  \<comment> \<open>thrown by x25519\<close>
  | NoSendingChain  \<comment> \<open>'No sending chain key available'\<close>
  | NoReceivingChain  \<comment> \<open>'No receiving chain key available'\<close>
  | MalformedUtf8  \<comment> \<open>'Malformed UTF-8 data', thrown by CryptoJS\<close>
  | InvalidSignedPreKeySignature  \<comment> \<open>'Invalid signed pre-key signature'\<close>
  | NoIdentityKeyPair  \<comment> \<open>'No identity key pair found'\<close>
  | MissingLocalKeys  \<comment> \<open>'Missing local keys'\<close>
  | TypeError  \<comment> \<open>Base64 parsing of a field the data does not have\<close>

section \<open>X3DH agreement (crypto/x3dh.ts)\<close>

record X3dhResult =
  sharedSecret :: bytes
  ephemeralKey :: bytes

definition X3DH_INFO :: bytes where
  "X3DH_INFO = TextEncoder_encode ''SecurePoliceMessaging_X3DH''"

definition x3dhInitiator ::
  "lib \<Rightarrow> world \<Rightarrow> KeyPair \<Rightarrow> PreKeyBundle \<Rightarrow> error + X3dhResult" where
  "x3dhInitiator L W identityKeyPair remotePreKeyBundle =
     (let ephemeralPrivate = generateRandomBytes W 32 in
      case x25519_getPublicKey L ephemeralPrivate of
        None \<Rightarrow> Inl CurveError
      | Some ephemeralPublic \<Rightarrow>
      (case x25519_getSharedSecret L (slice_bytes (privateKey identityKeyPair) 0 32)
              (signedPreKey remotePreKeyBundle) of
        None \<Rightarrow> Inl CurveError
      | Some dh1 \<Rightarrow>
      (case x25519_getSharedSecret L ephemeralPrivate (identityKey remotePreKeyBundle) of
        None \<Rightarrow> Inl CurveError
      | Some dh2 \<Rightarrow>
      (case x25519_getSharedSecret L ephemeralPrivate (signedPreKey remotePreKeyBundle) of
        None \<Rightarrow> Inl CurveError
      | Some dh3 \<Rightarrow>
      (let dhOutputs = dh1 @ dh2 @ dh3 in
       case (case preKey remotePreKeyBundle of
               None \<Rightarrow> Some dhOutputs
             | Some opk \<Rightarrow>
                 (case x25519_getSharedSecret L ephemeralPrivate opk of
                    None \<Rightarrow> None
                  | Some dh4 \<Rightarrow> Some (dhOutputs @ dh4))) of
         None \<Rightarrow> Inl CurveError
       | Some dhOutputs' \<Rightarrow>
           (let salt = new_Uint8Array 32;
                sharedSecret' = hkdf L dhOutputs' salt X3DH_INFO 32
            in Inr \<lparr>sharedSecret = sharedSecret', ephemeralKey = ephemeralPublic\<rparr>))))))"

definition x3dhResponder ::
  "lib \<Rightarrow> KeyPair \<Rightarrow> SignedPreKey \<Rightarrow> PreKey option \<Rightarrow> bytes \<Rightarrow> bytes \<Rightarrow> error + bytes" where
  "x3dhResponder L identityKeyPair signedPreKey' oneTimePreKey remoteIdentityKey'
       remoteEphemeralKey =
     (case x25519_getSharedSecret L (privateKey (keyPair signedPreKey'))
              (slice_bytes remoteIdentityKey' 0 32) of
        None \<Rightarrow> Inl CurveError
      | Some dh1 \<Rightarrow>
      (case x25519_getSharedSecret L (slice_bytes (privateKey identityKeyPair) 0 32)
              remoteEphemeralKey of
        None \<Rightarrow> Inl CurveError
      | Some dh2 \<Rightarrow>
      (case x25519_getSharedSecret L (privateKey (keyPair signedPreKey'))
              remoteEphemeralKey of
        None \<Rightarrow> Inl CurveError
      | Some dh3 \<Rightarrow>
      (let dhOutputs = dh1 @ dh2 @ dh3 in
       case (case oneTimePreKey of
               None \<Rightarrow> Some dhOutputs
             | Some opk \<Rightarrow>
                 (case x25519_getSharedSecret L (privateKey (keyPair opk))
                         remoteEphemeralKey of
                    None \<Rightarrow> None
                  | Some dh4 \<Rightarrow> Some (dhOutputs @ dh4))) of
         None \<Rightarrow> Inl CurveError
       | Some dhOutputs' \<Rightarrow>
           (let salt = new_Uint8Array 32
            in Inr (hkdf L dhOutputs' salt X3DH_INFO 32))))))"

text \<open>\<open>verifySignedPreKey\<close> turns an exception of \<open>ed25519.verify\<close> into \<open>false\<close>.\<close>

definition verifySignedPreKey :: "lib \<Rightarrow> bytes \<Rightarrow> bytes \<Rightarrow> bytes \<Rightarrow> bool" where
  "verifySignedPreKey L publicKey' signature' identityKey' =
     (case ed25519_verify L signature' publicKey' identityKey' of
        Some ok \<Rightarrow> ok
      | None \<Rightarrow> False)"

section \<open>Double ratchet (crypto/doubleRatchet.ts)\<close>

definition MESSAGE_KEY_SEED :: bytes where
  "MESSAGE_KEY_SEED = TextEncoder_encode ''MessageKeys''"

definition CHAIN_KEY_SEED :: bytes where
  "CHAIN_KEY_SEED = TextEncoder_encode ''ChainKey''"

definition ROOT_KEY_SEED :: bytes where
  "ROOT_KEY_SEED = TextEncoder_encode ''RootKey''"

definition initializeSession ::
  "lib \<Rightarrow> world \<Rightarrow> bytes \<Rightarrow> bytes \<Rightarrow> bool \<Rightarrow> SessionState" where
  "initializeSession L W sharedSecret' remoteIdentityKey' isInitiator =
     (let salt = new_Uint8Array 32;
          rootKey' = hkdf L sharedSecret' salt ROOT_KEY_SEED 32;
          chainKey' = hkdf L sharedSecret' salt CHAIN_KEY_SEED 32;
          sessionId' = ''session_'' @ dateNow W @ ''_'' @ mathRandom W
      in \<lparr>sessionId = sessionId',
          remoteIdentityKey = remoteIdentityKey',
          rootKey = rootKey',
          chainKey = chainKey',
          sendingChainKey = (if isInitiator then Some chainKey' else None),
          receivingChainKey = (if isInitiator then None else Some chainKey'),
          messageNumber = 0,
          previousCounter = 0\<rparr>)"

record RatchetStep =
  newChainKey :: bytes
  messageKey :: bytes

definition ratchetChainKey :: "lib \<Rightarrow> bytes \<Rightarrow> RatchetStep" where
  "ratchetChainKey L chainKey' =
     (let chainInput = [0x02];
          newChainKey' = hmacSha256 L chainInput chainKey';
          messageInput = [0x01];
          messageKey' = hmacSha256 L messageInput chainKey'
      in \<lparr>newChainKey = newChainKey', messageKey = messageKey'\<rparr>)"

definition deriveMessageKeys :: "lib \<Rightarrow> bytes \<Rightarrow> MessageKeys" where
  "deriveMessageKeys L messageKey' =
     (let salt = new_Uint8Array 32;
          info = MESSAGE_KEY_SEED;
          keyMaterial = hkdf L messageKey' salt info 80
      in \<lparr>cipherKey = slice_bytes keyMaterial 0 32,
          macKey = slice_bytes keyMaterial 32 64,
          iv = slice_bytes keyMaterial 64 80\<rparr>)"

text \<open>
  \<open>ratchetEncrypt\<close> and \<open>ratchetDecrypt\<close> return a pair for the object
  \<open>{encrypted, newSession}\<close> or \<open>{plaintext, newSession}\<close>. Their last three statements
  fill the message keys with zeros; these arrays are local and nothing reads them after.
\<close>

definition ratchetEncrypt ::
  "lib \<Rightarrow> SessionState \<Rightarrow> string \<Rightarrow> error + EncryptedMessage \<times> SessionState" where
  "ratchetEncrypt L session plaintext =
     (case sendingChainKey session of
        None \<Rightarrow> Inl NoSendingChain
      | Some sending \<Rightarrow>
          (let step = ratchetChainKey L sending;
               messageKeys = deriveMessageKeys L (messageKey step);
               ciphertext' = aes256Encrypt L plaintext (cipherKey messageKeys) (iv messageKeys);
               encrypted = \<lparr>msgType = message,
                            msgRegistrationId = 0,
                            messageVersion = 1,
                            ciphertext = TextEncoder_encode ciphertext',
                            msgPreKeyId = None,
                            msgSignedPreKeyId = None,
                            baseKey = None,
                            msgIdentityKey = None\<rparr>;
               newSession = session\<lparr>sendingChainKey := Some (newChainKey step),
                                     messageNumber := messageNumber session + 1\<rparr>
           in Inr (encrypted, newSession)))"

definition ratchetDecrypt ::
  "lib \<Rightarrow> SessionState \<Rightarrow> EncryptedMessage \<Rightarrow> error + string \<times> SessionState" where
  "ratchetDecrypt L session encrypted =
     (case receivingChainKey session of
        None \<Rightarrow> Inl NoReceivingChain
      | Some receiving \<Rightarrow>
          (let step = ratchetChainKey L receiving;
               messageKeys = deriveMessageKeys L (messageKey step);
               ciphertextStr = TextDecoder_decode L (ciphertext encrypted)
           in case aes256Decrypt L ciphertextStr (cipherKey messageKeys) (iv messageKeys) of
                None \<Rightarrow> Inl MalformedUtf8
              | Some plaintext \<Rightarrow>
                  (let newSession = session\<lparr>receivingChainKey := Some (newChainKey step),
                                            previousCounter := messageNumber session,
                                            messageNumber := messageNumber session + 1\<rparr>
                   in Inr (plaintext, newSession))))"

section \<open>Messaging service (services/messagingService.ts)\<close>

text \<open>
  The service's methods, with the calls of \<open>storeSession\<close> they make listed in order
  beside their result: the only writes to the stored sessions. The network and the
  key storage are taken to answer; what they answer is in \<open>world\<close>.
\<close>

type_synonym stores = "(string \<times> SessionState) list"

definition establishSession ::
  "lib \<Rightarrow> world \<Rightarrow> string \<Rightarrow> (error + SessionState) \<times> stores" where
  "establishSession L W toUserId =
     (let bundle = getBundle W toUserId;
          isValid = verifySignedPreKey L (signedPreKey bundle) (signedPreKeySignature bundle)
                      (identityKey bundle)
      in if \<not> isValid then (Inl InvalidSignedPreKeySignature, [])
         else case getIdentityKeyPair W of
                None \<Rightarrow> (Inl NoIdentityKeyPair, [])
              | Some identityKeyPair \<Rightarrow>
                  (case x3dhInitiator L W identityKeyPair bundle of
                     Inl e \<Rightarrow> (Inl e, [])
                   | Inr r \<Rightarrow>
                       (let session = initializeSession L W (sharedSecret r)
                                        (identityKey bundle) True
                        in (Inr session, [(toUserId, session)]))))"

text \<open>The body of the POST request to \<open>/messages\<close>.\<close>

record Payload =
  p_toUserId :: string
  p_type :: string
  p_encryptedContent :: string
  p_messageType :: MessageType
  p_registrationId :: int
  p_timestamp :: string

text \<open>\<open>sendMessage\<close>, up to the request it posts.\<close>

definition sendMessage ::
  "lib \<Rightarrow> world \<Rightarrow> string \<Rightarrow> string \<Rightarrow> string \<Rightarrow> (error + Payload) \<times> stores" where
  "sendMessage L W toUserId content type' =
     (case (case getSession W toUserId of
              Some session \<Rightarrow> (Inr session, [])
            | None \<Rightarrow> establishSession L W toUserId) of
        (Inl e, stored) \<Rightarrow> (Inl e, stored)
      | (Inr session, stored) \<Rightarrow>
          (case ratchetEncrypt L session content of
             Inl e \<Rightarrow> (Inl e, stored)
           | Inr (encrypted, newSession) \<Rightarrow>
               (let payload = \<lparr>p_toUserId = toUserId,
                               p_type = type',
                               p_encryptedContent = uint8ArrayToBase64 L (ciphertext encrypted),
                               p_messageType = msgType encrypted,
                               p_registrationId = msgRegistrationId encrypted,
                               p_timestamp = dateNow W\<rparr>
                in (Inr payload, stored @ [(toUserId, newSession)]))))"

text \<open>
  The data of an incoming message. The two keys that \<open>establishSessionAsResponder\<close>
  reads are optional: the request above has no such fields.
\<close>

record IncomingData =
  fromUserId :: string
  d_messageType :: MessageType
  d_registrationId :: int
  d_encryptedContent :: string
  d_remoteIdentityKey :: "string option"
  d_ephemeralKey :: "string option"

definition establishSessionAsResponder ::
  "lib \<Rightarrow> world \<Rightarrow> IncomingData \<Rightarrow> error + SessionState" where
  "establishSessionAsResponder L W encryptedData =
     (case (getIdentityKeyPair W, getSignedPreKey W) of
        (Some identityKeyPair, Some signedPreKey') \<Rightarrow>
          (case (d_remoteIdentityKey encryptedData, d_ephemeralKey encryptedData) of
             (Some rik, Some ek) \<Rightarrow>
               (let remoteIdentityKey' = base64ToUint8Array L rik;
                    remoteEphemeralKey = base64ToUint8Array L ek
                in case x3dhResponder L identityKeyPair signedPreKey' None
                          remoteIdentityKey' remoteEphemeralKey of
                     Inl e \<Rightarrow> Inl e
                   | Inr sharedSecret' \<Rightarrow>
                       Inr (initializeSession L W sharedSecret' remoteIdentityKey' False))
           | _ \<Rightarrow> Inl TypeError)
      | _ \<Rightarrow> Inl MissingLocalKeys)"

text \<open>\<open>decryptIncomingMessage\<close>; of the chat message it returns, the content.\<close>

definition decryptIncomingMessage ::
  "lib \<Rightarrow> world \<Rightarrow> IncomingData \<Rightarrow> (error + string) \<times> stores" where
  "decryptIncomingMessage L W encryptedData =
     (case (case getSession W (fromUserId encryptedData) of
              Some session \<Rightarrow> Inr session
            | None \<Rightarrow> establishSessionAsResponder L W encryptedData) of
        Inl e \<Rightarrow> (Inl e, [])
      | Inr session \<Rightarrow>
          (let encrypted = \<lparr>msgType = d_messageType encryptedData,
                            msgRegistrationId = d_registrationId encryptedData,
                            messageVersion = 1,
                            ciphertext = base64ToUint8Array L (d_encryptedContent encryptedData),
                            msgPreKeyId = None,
                            msgSignedPreKeyId = None,
                            baseKey = None,
                            msgIdentityKey = None\<rparr>
           in case ratchetDecrypt L session encrypted of
                Inl e \<Rightarrow> (Inl e, [])
              | Inr (plaintext, newSession) \<Rightarrow>
                  (Inr plaintext, [(fromUserId encryptedData, newSession)])))"

section \<open>Conversations\<close>

text \<open>
  A run of \<open>ratchetEncrypt\<close> on one session, each call on the session the call before
  returned, and the same for \<open>ratchetDecrypt\<close>. The first error ends the run.
\<close>

fun encryptAll ::
  "lib \<Rightarrow> SessionState \<Rightarrow> string list \<Rightarrow> error + EncryptedMessage list \<times> SessionState" where
  "encryptAll L session [] = Inr ([], session)"
| "encryptAll L session (plaintext # rest) =
     (case ratchetEncrypt L session plaintext of
        Inl e \<Rightarrow> Inl e
      | Inr (encrypted, newSession) \<Rightarrow>
          (case encryptAll L newSession rest of
             Inl e \<Rightarrow> Inl e
           | Inr (envelopes, final) \<Rightarrow> Inr (encrypted # envelopes, final)))"

fun decryptAll ::
  "lib \<Rightarrow> SessionState \<Rightarrow> EncryptedMessage list \<Rightarrow> error + string list \<times> SessionState" where
  "decryptAll L session [] = Inr ([], session)"
| "decryptAll L session (encrypted # rest) =
     (case ratchetDecrypt L session encrypted of
        Inl e \<Rightarrow> Inl e
      | Inr (plaintext, newSession) \<Rightarrow>
          (case decryptAll L newSession rest of
             Inl e \<Rightarrow> Inl e
           | Inr (plaintexts, final) \<Rightarrow> Inr (plaintext # plaintexts, final)))"

text \<open>
  What the round trip asks of the libraries: with a 32-byte key and a 16-byte
  initialization vector, AES decryption undoes AES encryption, and the Base64 text of a
  ciphertext survives \<open>TextEncoder\<close> and \<open>TextDecoder\<close>.
\<close>

definition cipher_inverts :: "lib \<Rightarrow> bool" where
  "cipher_inverts L \<longleftrightarrow>
     (\<forall>p k v. length k = 32 \<longrightarrow> length v = 16 \<longrightarrow>
        TextDecoder_decode L (TextEncoder_encode (AES_encrypt L p k v)) = AES_encrypt L p k v \<and>
        AES_decrypt L (AES_encrypt L p k v) k v = Some p)"

section \<open>A stand-in library and sample data\<close>

text \<open>
  A small library to run the definitions on: a cipher that marks the plaintext with
  \<open>#\<close>, throws on a text that starts with another character and, as CryptoJS does,
  reads the empty text as the empty string; a key agreement that adds bytes; and a
  signature that is the signed key followed by the signer's public key.
\<close>

definition toy_lib :: lib where
  "toy_lib =
     \<lparr>HmacSHA256 = (\<lambda>m k. 0),
      AES_encrypt = (\<lambda>p k v. CHR ''#'' # p),
      AES_decrypt = (\<lambda>c k v. case c of [] \<Rightarrow> Some []
                                  | x # p \<Rightarrow> if x = CHR ''#'' then Some p else None),
      x25519_getPublicKey = (\<lambda>priv. Some priv),
      x25519_getSharedSecret = (\<lambda>priv pub. Some (map2 (+) priv pub)),
      ed25519_verify = (\<lambda>sig msg pk. if length sig = 64 then Some (sig = msg @ pk) else None),
      TextDecoder_decode = map (\<lambda>b. char_of (unat b)),
      Base64_stringify = map (\<lambda>b. char_of (unat b)),
      Base64_parse = (\<lambda>s. \<lparr>words = map (\<lambda>c. of_nat (of_char c)) s, sigBytes = 4 * length s\<rparr>)\<rparr>"

definition alice :: KeyPair where
  "alice = \<lparr>publicKey = replicate 32 1, privateKey = replicate 32 1\<rparr>"

definition bob :: KeyPair where
  "bob = \<lparr>publicKey = replicate 32 2, privateKey = replicate 32 2\<rparr>"

definition bob_signedPreKey :: SignedPreKey where
  "bob_signedPreKey =
     \<lparr>keyId = 1,
      keyPair = \<lparr>publicKey = replicate 32 3, privateKey = replicate 32 3\<rparr>,
      signature = replicate 32 3 @ replicate 32 2,
      timestamp = 0\<rparr>"

definition bob_preKey :: PreKey where
  "bob_preKey = \<lparr>keyId = 1, keyPair = \<lparr>publicKey = replicate 32 4, privateKey = replicate 32 4\<rparr>\<rparr>"

definition bob_bundle :: PreKeyBundle where
  "bob_bundle =
     \<lparr>identityKey = publicKey bob,
      signedPreKey = publicKey (keyPair bob_signedPreKey),
      signedPreKeyId = keyId bob_signedPreKey,
      signedPreKeySignature = signature bob_signedPreKey,
      preKey = Some (publicKey (keyPair bob_preKey)),
      preKeyId = Some (keyId bob_preKey),
      registrationId = 0\<rparr>"

text \<open>Bob's bundle with another signed pre-key under Bob's signature.\<close>

definition forged_bundle :: PreKeyBundle where
  "forged_bundle = bob_bundle\<lparr>signedPreKey := replicate 32 9\<rparr>"

text \<open>
  Alice's device: no session yet; the server answers a request for mallory's keys with
  the forged bundle.
\<close>

definition toy_world :: world where
  "toy_world =
     \<lparr>dateNow = ''1700000000000'',
      mathRandom = ''0.4fzyo82mvyr'',
      generateRandomBytes = (\<lambda>n. replicate n 7),
      getIdentityKeyPair = Some alice,
      getSignedPreKey = None,
      getSession = (\<lambda>userId. None),
      getBundle = (\<lambda>userId. if userId = ''mallory'' then forged_bundle else bob_bundle)\<rparr>"

definition bob_session :: SessionState where
  "bob_session = initializeSession toy_lib toy_world (replicate 32 0) (publicKey alice) False"

text \<open>Bob's device, holding a session with Alice.\<close>

definition bob_world :: world where
  "bob_world =
     toy_world\<lparr>getIdentityKeyPair := Some bob,
               getSignedPreKey := Some bob_signedPreKey,
               getSession := (\<lambda>userId. if userId = ''alice'' then Some bob_session else None)\<rparr>"

text \<open>
  Two incoming messages whose content no encryption produced: one on which the cipher
  throws, and one with an empty content.
\<close>

definition garbled :: IncomingData where
  "garbled =
     \<lparr>fromUserId = ''alice'',
      d_messageType = message,
      d_registrationId = 0,
      d_encryptedContent = ''x'',
      d_remoteIdentityKey = None,
      d_ephemeralKey = None\<rparr>"

definition empty_content :: IncomingData where
  "empty_content = garbled\<lparr>d_encryptedContent := ''''\<rparr>"

lemmas fixtures = toy_lib_def alice_def bob_def bob_signedPreKey_def bob_preKey_def bob_bundle_def
  forged_bundle_def toy_world_def bob_session_def bob_world_def garbled_def empty_content_def

section \<open>The primitives return zeros\<close>

lemma hmacSha256_zero: "hmacSha256 L m k = replicate 32 0"
  by (simp add: hmacSha256_def hmac_words_def new_Uint8Array_def)

lemma set_bytes_zero:
  "offset + c \<le> len \<Longrightarrow> set_bytes (replicate len 0) (replicate c 0) offset = replicate len 0"
  by (simp add: set_bytes_def flip: replicate_add)

text \<open>Every write of the expand loop lies inside \<open>output\<close>, whose length stays \<open>len\<close>.\<close>

lemma hkdf_set_fits:
  assumes "offset < len" and "length out = len"
    and "toCopy = min (length t') (len - offset)"
  shows "offset + length (take toCopy t') \<le> length out \<and>
         length (set_bytes out (take toCopy t') offset) = len"
  using assms by (auto simp: set_bytes_def min_def)

lemma hkdf_loop_zero:
  "offset \<le> len \<Longrightarrow> out = replicate len 0 \<Longrightarrow>
   hkdf_loop L prk info len out t offset counter = replicate len 0"
proof (induction L prk info len out t offset counter rule: hkdf_loop.induct)
  case (1 L prk info len out t offset counter)
  show ?case
  proof (cases "offset < len")
    case False
    then show ?thesis using "1.prems" by (subst hkdf_loop.simps) simp
  next
    case True
    have fits: "offset + min 32 (len - offset) \<le> len" using True by simp
    show ?thesis
      using True "1.IH" [OF True refl refl refl refl] "1.prems" fits
      by (subst hkdf_loop.simps) (simp add: Let_def hmacSha256_zero set_bytes_zero)
  qed
qed

lemma hkdf_zero: "hkdf L ikm salt info len = replicate len 0"
  by (simp add: hkdf_def hkdf_loop_zero new_Uint8Array_def)

text \<open>
  C3. For every message and key, \<open>hmacSha256\<close> returns 32 zero bytes: it computes the
  digest and returns a fresh array of the digest's length that nothing has written to.
  So \<open>hkdf\<close> returns \<open>len\<close> zero bytes for every input key material, salt, info and
  length.
\<close>

theorem hmacSha256_and_hkdf_are_zero:
  "hmacSha256 L message' key = replicate 32 0 \<and>
   hkdf L inputKeyMaterial salt info len = replicate len 0"
  by (simp add: hmacSha256_zero hkdf_zero)


section \<open>X3DH\<close>

lemma x3dhInitiator_secret:
  "x3dhInitiator L W ik b = Inr r \<Longrightarrow> sharedSecret r = replicate 32 0"
  by (auto simp: x3dhInitiator_def Let_def hkdf_zero split: option.splits)

lemma x3dhResponder_secret:
  "x3dhResponder L ik spk opk rik rek = Inr s \<Longrightarrow> s = replicate 32 0"
  by (auto simp: x3dhResponder_def Let_def hkdf_zero split: option.splits)

text \<open>Both sides return whenever the curve library throws on none of their calls.\<close>

lemma x3dh_returns:
  assumes "\<forall>priv. x25519_getPublicKey L priv \<noteq> None"
    and "\<forall>priv pub. x25519_getSharedSecret L priv pub \<noteq> None"
  shows "(\<exists>r. x3dhInitiator L W ik b = Inr r) \<and> (\<exists>s. x3dhResponder L ik' spk opk rik rek = Inr s)"
proof
  have d: "\<exists>y. x25519_getSharedSecret L priv pub = Some y" for priv pub
    using assms(2) by auto
  obtain e where e: "x25519_getPublicKey L (generateRandomBytes W 32) = Some e"
    using assms(1) by auto
  obtain dh1 dh2 dh3
    where i: "x25519_getSharedSecret L (slice_bytes (privateKey ik) 0 32) (signedPreKey b) = Some dh1"
      "x25519_getSharedSecret L (generateRandomBytes W 32) (identityKey b) = Some dh2"
      "x25519_getSharedSecret L (generateRandomBytes W 32) (signedPreKey b) = Some dh3"
    using d by metis
  show "\<exists>r. x3dhInitiator L W ik b = Inr r"
  proof (cases "preKey b")
    case None
    then show ?thesis by (simp add: x3dhInitiator_def Let_def e i)
  next
    case (Some opk')
    obtain dh4 where "x25519_getSharedSecret L (generateRandomBytes W 32) opk' = Some dh4"
      using d by metis
    then show ?thesis using Some by (simp add: x3dhInitiator_def Let_def e i)
  qed
  obtain r1 r2 r3
    where r: "x25519_getSharedSecret L (privateKey (keyPair spk)) (slice_bytes rik 0 32) = Some r1"
      "x25519_getSharedSecret L (slice_bytes (privateKey ik') 0 32) rek = Some r2"
      "x25519_getSharedSecret L (privateKey (keyPair spk)) rek = Some r3"
    using d by metis
  show "\<exists>s. x3dhResponder L ik' spk opk rik rek = Inr s"
  proof (cases opk)
    case None
    then show ?thesis by (simp add: x3dhResponder_def Let_def r)
  next
    case (Some k)
    obtain r4 where "x25519_getSharedSecret L (privateKey (keyPair k)) rek = Some r4"
      using d by metis
    then show ?thesis using Some by (simp add: x3dhResponder_def Let_def r)
  qed
qed

text \<open>
  C1. The responder's keys are an identity key pair, a signed pre-key and, when there
  is one, a one-time pre-key; the bundle holds their public halves. When
  \<open>x3dhInitiator\<close> returns on that bundle, and \<open>x3dhResponder\<close> returns on the
  responder's private keys, the initiator's identity public key and the ephemeral key
  that \<open>x3dhInitiator\<close> returned, the two shared secrets are the same 32 bytes.
  (Either call fails only when the curve library throws: \<open>x3dh_returns\<close>.)
\<close>

theorem x3dh_shared_secrets_agree:
  assumes "bundle =
             \<lparr>identityKey = publicKey responderIdentity,
              signedPreKey = publicKey (keyPair responderSignedPreKey),
              signedPreKeyId = keyId responderSignedPreKey,
              signedPreKeySignature = signature responderSignedPreKey,
              preKey = map_option (\<lambda>k. publicKey (keyPair k)) responderOneTimePreKey,
              preKeyId = map_option keyId responderOneTimePreKey,
              registrationId = rid\<rparr>"
    and "x3dhInitiator L W initiatorIdentity bundle = Inr r"
    and "x3dhResponder L responderIdentity responderSignedPreKey responderOneTimePreKey
           (publicKey initiatorIdentity) (ephemeralKey r) = Inr s"
  shows "s = sharedSecret r \<and> length s = 32"
  using x3dhInitiator_secret [OF assms(2)] x3dhResponder_secret [OF assms(3)] by simp

text \<open>Alice runs the handshake on Bob's bundle, Bob answers with his private keys.\<close>

theorem x3dh_shared_secrets_agree_witness:
  "x3dhInitiator toy_lib toy_world alice bob_bundle =
     Inr \<lparr>sharedSecret = replicate 32 0, ephemeralKey = replicate 32 7\<rparr> \<and>
   x3dhResponder toy_lib bob bob_signedPreKey (Some bob_preKey) (publicKey alice)
     (replicate 32 7) = Inr (replicate 32 0) \<and>
   length (replicate 32 (0 :: 8 word)) = 32"
proof -
  have i: "x3dhInitiator toy_lib toy_world alice bob_bundle =
      Inr \<lparr>sharedSecret = replicate 32 0, ephemeralKey = replicate 32 7\<rparr>"
    by (simp add: fixtures x3dhInitiator_def hkdf_zero slice_bytes_def new_Uint8Array_def)
  have r: "x3dhResponder toy_lib bob bob_signedPreKey (Some bob_preKey) (publicKey alice)
      (ephemeralKey \<lparr>sharedSecret = replicate 32 0, ephemeralKey = replicate 32 7\<rparr>)
      = Inr (replicate 32 0)"
    by (simp add: fixtures x3dhResponder_def hkdf_zero slice_bytes_def new_Uint8Array_def)
  have b: "bob_bundle =
      \<lparr>identityKey = publicKey bob,
       signedPreKey = publicKey (keyPair bob_signedPreKey),
       signedPreKeyId = keyId bob_signedPreKey,
       signedPreKeySignature = signature bob_signedPreKey,
       preKey = map_option (\<lambda>k. publicKey (keyPair k)) (Some bob_preKey),
       preKeyId = map_option keyId (Some bob_preKey),
       registrationId = 0\<rparr>"
    by (simp add: bob_bundle_def)
  show ?thesis using x3dh_shared_secrets_agree [OF b i r] i r by simp
qed

text \<open>
  C2, as the code has it. The signature is checked by \<open>establishSession\<close>, the
  service method that calls \<open>x3dhInitiator\<close>: for a bundle whose signature does not
  verify against the bundle's identity key it throws 'Invalid signed pre-key signature'
  before any key agreement, returns no session and stores none, whatever the libraries
  compute; \<open>sendMessage\<close> to a peer without a session fails with it.
\<close>

theorem establishSession_rejects_unverified_bundle:
  assumes "\<not> verifySignedPreKey L (signedPreKey (getBundle W toUserId))
               (signedPreKeySignature (getBundle W toUserId)) (identityKey (getBundle W toUserId))"
  shows "establishSession L W toUserId = (Inl InvalidSignedPreKeySignature, []) \<and>
         (getSession W toUserId = None \<longrightarrow>
            sendMessage L W toUserId content type' = (Inl InvalidSignedPreKeySignature, []))"
  using assms by (simp add: establishSession_def sendMessage_def Let_def)

text \<open>Alice asks for a session with mallory, whose bundle is the forged one.\<close>

theorem establishSession_rejects_unverified_bundle_witness:
  "\<not> verifySignedPreKey toy_lib (signedPreKey (getBundle toy_world ''mallory''))
        (signedPreKeySignature (getBundle toy_world ''mallory''))
        (identityKey (getBundle toy_world ''mallory'')) \<and>
   getSession toy_world ''mallory'' = None \<and>
   establishSession toy_lib toy_world ''mallory'' = (Inl InvalidSignedPreKeySignature, []) \<and>
   sendMessage toy_lib toy_world ''mallory'' ''hi'' ''text'' = (Inl InvalidSignedPreKeySignature, [])"
proof -
  have v: "\<not> verifySignedPreKey toy_lib (signedPreKey (getBundle toy_world ''mallory''))
        (signedPreKeySignature (getBundle toy_world ''mallory''))
        (identityKey (getBundle toy_world ''mallory''))"
    by (simp add: fixtures verifySignedPreKey_def)
  have g: "getSession toy_world ''mallory'' = None"
    by (simp add: toy_world_def)
  show ?thesis
    using establishSession_rejects_unverified_bundle [OF v, of "''hi''" "''text''"] v g by simp
qed

text \<open>
  C2, as stated, fails: \<open>x3dhInitiator\<close> does not look at the signature. On the forged
  bundle, whose signature does not verify, it returns a shared secret.
\<close>

theorem x3dhInitiator_accepts_unverified_bundle:
  "\<not> verifySignedPreKey toy_lib (signedPreKey forged_bundle)
        (signedPreKeySignature forged_bundle) (identityKey forged_bundle) \<and>
   x3dhInitiator toy_lib toy_world alice forged_bundle =
     Inr \<lparr>sharedSecret = replicate 32 0, ephemeralKey = replicate 32 7\<rparr>"
  by (simp add: fixtures verifySignedPreKey_def x3dhInitiator_def hkdf_zero slice_bytes_def
      new_Uint8Array_def)


section \<open>Sessions and the ratchet\<close>

text \<open>
  C10. \<open>initializeSession\<close> returns a state whose root key is
  \<open>hkdf(sharedSecret, 32 zero bytes, "RootKey", 32)\<close> and whose chain key is
  \<open>hkdf(sharedSecret, 32 zero bytes, "ChainKey", 32)\<close>. The initiator gets the chain
  key as sending chain key and no receiving chain key, the responder gets it as receiving
  chain key and no sending chain key, and the message number is 0.
\<close>

theorem initializeSession_fields:
  "rootKey (initializeSession L W s rk i) =
     hkdf L s (replicate 32 0) (TextEncoder_encode ''RootKey'') 32 \<and>
   chainKey (initializeSession L W s rk i) =
     hkdf L s (replicate 32 0) (TextEncoder_encode ''ChainKey'') 32 \<and>
   sendingChainKey (initializeSession L W s rk True) =
     Some (chainKey (initializeSession L W s rk True)) \<and>
   receivingChainKey (initializeSession L W s rk True) = None \<and>
   receivingChainKey (initializeSession L W s rk False) =
     Some (chainKey (initializeSession L W s rk False)) \<and>
   sendingChainKey (initializeSession L W s rk False) = None \<and>
   messageNumber (initializeSession L W s rk i) = 0"
  by (simp add: initializeSession_def Let_def new_Uint8Array_def ROOT_KEY_SEED_def
      CHAIN_KEY_SEED_def)

text \<open>
  C9. \<open>ratchetEncrypt\<close> fails with 'No sending chain key available' exactly when the
  session has no sending chain key, and \<open>ratchetDecrypt\<close> fails with 'No receiving
  chain key available' exactly when it has no receiving chain key.
\<close>

theorem no_chain_error_iff:
  "(ratchetEncrypt L session plaintext = Inl NoSendingChain \<longleftrightarrow>
      sendingChainKey session = None) \<and>
   (ratchetDecrypt L session encrypted = Inl NoReceivingChain \<longleftrightarrow>
      receivingChainKey session = None)"
  by (auto simp: ratchetEncrypt_def ratchetDecrypt_def Let_def split: option.splits)

lemma ratchetChainKey_zero:
  "ratchetChainKey L ck = \<lparr>newChainKey = replicate 32 0, messageKey = replicate 32 0\<rparr>"
  by (simp add: ratchetChainKey_def Let_def hmacSha256_zero)

lemma deriveMessageKeys_zero:
  "deriveMessageKeys L mk =
     \<lparr>cipherKey = replicate 32 0, macKey = replicate 32 0, iv = replicate 16 0\<rparr>"
  by (simp add: deriveMessageKeys_def Let_def hkdf_zero slice_bytes_def)

lemma deriveMessageKeys_lengths:
  "length (cipherKey (deriveMessageKeys L mk)) = 32 \<and> length (iv (deriveMessageKeys L mk)) = 16"
  by (simp add: deriveMessageKeys_zero)

lemma initializeSession_sending:
  "sendingChainKey (initializeSession L W s rk True) = Some (replicate 32 0)"
  by (simp add: initializeSession_def Let_def hkdf_zero)

text \<open>With a sending chain key, \<open>ratchetEncrypt\<close> returns; this is what it returns.\<close>

lemma ratchetEncrypt_Some:
  "sendingChainKey s = Some ck \<Longrightarrow>
   ratchetEncrypt L s p =
     Inr (\<lparr>msgType = message, msgRegistrationId = 0, messageVersion = 1,
           ciphertext = TextEncoder_encode
             (AES_encrypt L p (cipherKey (deriveMessageKeys L (messageKey (ratchetChainKey L ck))))
                (iv (deriveMessageKeys L (messageKey (ratchetChainKey L ck))))),
           msgPreKeyId = None, msgSignedPreKeyId = None, baseKey = None,
           msgIdentityKey = None\<rparr>,
          s\<lparr>sendingChainKey := Some (newChainKey (ratchetChainKey L ck)),
            messageNumber := messageNumber s + 1\<rparr>)"
  by (simp add: ratchetEncrypt_def Let_def aes256Encrypt_def)

text \<open>When \<open>ratchetDecrypt\<close> returns, the new session differs in three fields.\<close>

lemma ratchetDecrypt_Inr:
  assumes "ratchetDecrypt L s e = Inr (p, s')"
  shows "\<exists>ck. receivingChainKey s = Some ck \<and>
           s' = s\<lparr>receivingChainKey := Some (newChainKey (ratchetChainKey L ck)),
                  previousCounter := messageNumber s,
                  messageNumber := messageNumber s + 1\<rparr>"
  using assms by (auto simp: ratchetDecrypt_def Let_def split: option.splits)

text \<open>
  One message: when the sender's sending chain key is the receiver's receiving chain
  key, the receiver decrypts what the sender encrypted, and the two chain keys agree
  again afterwards.
\<close>

lemma ratchet_step_roundtrip:
  assumes "cipher_inverts L"
    and "sendingChainKey sA = Some ck" and "receivingChainKey sB = Some ck"
    and "ratchetEncrypt L sA p = Inr (e, sA')"
  shows "\<exists>sB'. ratchetDecrypt L sB e = Inr (p, sB') \<and>
           receivingChainKey sB' = sendingChainKey sA' \<and>
           sendingChainKey sA' \<noteq> None \<and>
           messageNumber sB' = messageNumber sB + 1 \<and>
           messageNumber sA' = messageNumber sA + 1"
proof -
  let ?mk = "deriveMessageKeys L (messageKey (ratchetChainKey L ck))"
  let ?c = "AES_encrypt L p (cipherKey ?mk) (iv ?mk)"
  have e: "ciphertext e = TextEncoder_encode ?c"
    and sA': "sA' = sA\<lparr>sendingChainKey := Some (newChainKey (ratchetChainKey L ck)),
                       messageNumber := messageNumber sA + 1\<rparr>"
    using assms(4) ratchetEncrypt_Some [OF assms(2), of L p] by auto
  have len: "length (cipherKey ?mk) = 32" "length (iv ?mk) = 16"
    using deriveMessageKeys_lengths [of L] by simp_all
  have dec: "TextDecoder_decode L (TextEncoder_encode ?c) = ?c"
    and inv: "AES_decrypt L ?c (cipherKey ?mk) (iv ?mk) = Some p"
    using assms(1) len unfolding cipher_inverts_def by blast+
  show ?thesis
    using assms(3) e dec inv sA'
    by (simp add: ratchetDecrypt_def Let_def aes256Decrypt_def)
qed

lemma roundtrip_all:
  assumes "cipher_inverts L"
  shows "sendingChainKey sA = Some ck \<Longrightarrow> receivingChainKey sB = Some ck \<Longrightarrow>
         \<exists>es sA' sB'. encryptAll L sA ps = Inr (es, sA') \<and> decryptAll L sB es = Inr (ps, sB') \<and>
           messageNumber sA' = messageNumber sA + int (length ps) \<and>
           messageNumber sB' = messageNumber sB + int (length ps)"
proof (induction ps arbitrary: sA sB ck)
  case Nil
  then show ?case by simp
next
  case (Cons p ps)
  obtain e sA1 where enc: "ratchetEncrypt L sA p = Inr (e, sA1)"
    using ratchetEncrypt_Some [OF Cons.prems(1)] by blast
  obtain sB1 where dec: "ratchetDecrypt L sB e = Inr (p, sB1)"
    and keys: "receivingChainKey sB1 = sendingChainKey sA1" "sendingChainKey sA1 \<noteq> None"
    and nums: "messageNumber sB1 = messageNumber sB + 1" "messageNumber sA1 = messageNumber sA + 1"
    using ratchet_step_roundtrip [OF assms Cons.prems enc] by blast
  obtain ck1 where ck1: "sendingChainKey sA1 = Some ck1" using keys(2) by blast
  obtain es sA' sB' where rest: "encryptAll L sA1 ps = Inr (es, sA')"
      "decryptAll L sB1 es = Inr (ps, sB')"
      "messageNumber sA' = messageNumber sA1 + int (length ps)"
      "messageNumber sB' = messageNumber sB1 + int (length ps)"
    using Cons.IH [OF ck1, of sB1] keys(1) ck1 by auto
  show ?case using enc dec rest nums by simp
qed

text \<open>
  C4. Take a shared secret \<open>s\<close> and a remote identity key \<open>rk\<close>, the session
  \<open>initializeSession(s, rk, true)\<close> and the session \<open>initializeSession(s, rk, false)\<close>.
  For every list of plaintexts, encrypting them in turn on the first session and
  decrypting the envelopes in turn on the second returns exactly the plaintexts: the
  message after \<open>n\<close> ratchet steps on each side is recovered, for every \<open>n\<close>. The
  libraries are asked that AES decryption undoes AES encryption.
\<close>

theorem ratchet_roundtrip:
  assumes "cipher_inverts L"
  shows "\<exists>es sA sB.
           encryptAll L (initializeSession L W s rk True) ps = Inr (es, sA) \<and>
           decryptAll L (initializeSession L W' s rk False) es = Inr (ps, sB) \<and>
           messageNumber sA = int (length ps) \<and> messageNumber sB = int (length ps)"
proof -
  let ?ck = "hkdf L s (new_Uint8Array 32) CHAIN_KEY_SEED 32"
  have a: "sendingChainKey (initializeSession L W s rk True) = Some ?ck"
    and b: "receivingChainKey (initializeSession L W' s rk False) = Some ?ck"
    and n: "messageNumber (initializeSession L W s rk True) = 0"
      "messageNumber (initializeSession L W' s rk False) = 0"
    by (simp_all add: initializeSession_def Let_def)
  show ?thesis using roundtrip_all [OF assms a b, of ps] n by simp
qed

lemma toy_decode_encode: "TextDecoder_decode toy_lib (TextEncoder_encode s) = s"
proof -
  have "char_of (unat (of_nat (of_char c) :: 8 word)) = c" for c
    by (simp add: unat_of_nat)
  then show ?thesis
    by (simp add: toy_lib_def TextEncoder_encode_def comp_def)
qed

lemma toy_cipher_inverts: "cipher_inverts toy_lib"
  unfolding cipher_inverts_def
  by (simp add: toy_decode_encode) (simp add: toy_lib_def)

text \<open>Two messages from Alice's session to Bob's, on the stand-in library.\<close>

theorem ratchet_roundtrip_witness:
  "cipher_inverts toy_lib \<and>
   (\<exists>es sA sB.
      encryptAll toy_lib (initializeSession toy_lib toy_world (replicate 32 0) (publicKey bob) True)
        [''Hello, secure world!'', ''second''] = Inr (es, sA) \<and>
      decryptAll toy_lib (initializeSession toy_lib bob_world (replicate 32 0) (publicKey bob) False)
        es = Inr ([''Hello, secure world!'', ''second''], sB) \<and>
      messageNumber sA = int (length [''Hello, secure world!'', ''second'']) \<and>
      messageNumber sB = int (length [''Hello, secure world!'', ''second'']))"
  using ratchet_roundtrip [OF toy_cipher_inverts] toy_cipher_inverts by blast


section \<open>Where the code departs from the description\<close>

text \<open>
  C5 asks that two \<open>ratchetEncrypt\<close> calls in a row, the second on the session the
  first returned, leave two sending chain keys that differ from the original one and
  from each other. The code does not do that: for every session with a sending chain
  key both calls return, and both new sending chain keys are the 32 zero bytes that
  \<open>hmacSha256\<close> returns.
\<close>

theorem sequential_encrypts_repeat_chain_key:
  assumes "sendingChainKey session = Some ck"
  shows "\<exists>e1 s1 e2 s2.
           ratchetEncrypt L session p1 = Inr (e1, s1) \<and>
           ratchetEncrypt L s1 p2 = Inr (e2, s2) \<and>
           sendingChainKey s1 = Some (replicate 32 0) \<and>
           sendingChainKey s2 = Some (replicate 32 0)"
  by (simp add: ratchetEncrypt_Some [OF assms] ratchetEncrypt_Some ratchetChainKey_zero)

text \<open>
  On a session fresh from \<open>initializeSession\<close> the original sending chain key is the
  same 32 zero bytes.
\<close>

theorem sequential_encrypts_repeat_chain_key_witness:
  "sendingChainKey (initializeSession toy_lib toy_world (replicate 32 0) (replicate 32 0) True) =
     Some (replicate 32 0) \<and>
   (\<exists>e1 s1 e2 s2.
      ratchetEncrypt toy_lib
        (initializeSession toy_lib toy_world (replicate 32 0) (replicate 32 0) True) ''a'' =
        Inr (e1, s1) \<and>
      ratchetEncrypt toy_lib s1 ''b'' = Inr (e2, s2) \<and>
      sendingChainKey s1 = Some (replicate 32 0) \<and>
      sendingChainKey s2 = Some (replicate 32 0))"
  using sequential_encrypts_repeat_chain_key [OF initializeSession_sending]
    initializeSession_sending by blast

text \<open>
  C6 asks that encrypting the same plaintext twice on a session gives two different
  ciphertexts. The code does not do that: for every session with a sending chain key,
  the second call, on the session the first returned, returns the very same envelope.
  The cipher key is 32 zero bytes and the initialization vector 16 zero bytes, for
  every message of every session.
\<close>

theorem sequential_encrypts_repeat_ciphertext:
  assumes "sendingChainKey session = Some ck"
  shows "\<exists>e1 s1 e2 s2.
           ratchetEncrypt L session p = Inr (e1, s1) \<and>
           ratchetEncrypt L s1 p = Inr (e2, s2) \<and>
           e2 = e1 \<and>
           ciphertext e1 =
             TextEncoder_encode (aes256Encrypt L p (replicate 32 0) (replicate 16 0))"
  by (simp add: ratchetEncrypt_Some [OF assms] ratchetEncrypt_Some ratchetChainKey_zero
      deriveMessageKeys_zero aes256Encrypt_def)

theorem sequential_encrypts_repeat_ciphertext_witness:
  "sendingChainKey (initializeSession toy_lib toy_world (replicate 32 0) (replicate 32 0) True) =
     Some (replicate 32 0) \<and>
   (\<exists>e1 s1 e2 s2.
      ratchetEncrypt toy_lib
        (initializeSession toy_lib toy_world (replicate 32 0) (replicate 32 0) True)
        ''Hello, secure world!'' = Inr (e1, s1) \<and>
      ratchetEncrypt toy_lib s1 ''Hello, secure world!'' = Inr (e2, s2) \<and>
      e2 = e1 \<and>
      ciphertext e1 =
        TextEncoder_encode
          (aes256Encrypt toy_lib ''Hello, secure world!'' (replicate 32 0) (replicate 16 0)))"
  using sequential_encrypts_repeat_ciphertext [OF initializeSession_sending]
    initializeSession_sending by blast

text \<open>
  C7 asks that the first envelope of a session established as initiator be a prekey
  envelope with the ephemeral key of \<open>x3dhInitiator\<close> as \<open>baseKey\<close>. The code does not
  do that: \<open>establishSession\<close> drops the ephemeral key, and for a peer without a stored
  session the envelope that \<open>sendMessage\<close> gets from \<open>ratchetEncrypt\<close> has the type
  \<open>message\<close> and no \<open>baseKey\<close>; the request it posts has the six fields below.
\<close>

theorem first_message_is_plain_message:
  assumes "getSession W toUserId = None"
    and "establishSession L W toUserId = (Inr session, stored)"
  shows "\<exists>encrypted newSession.
           ratchetEncrypt L session content = Inr (encrypted, newSession) \<and>
           msgType encrypted = message \<and> baseKey encrypted = None \<and>
           sendMessage L W toUserId content type' =
             (Inr \<lparr>p_toUserId = toUserId, p_type = type',
                   p_encryptedContent = uint8ArrayToBase64 L (ciphertext encrypted),
                   p_messageType = message, p_registrationId = 0,
                   p_timestamp = dateNow W\<rparr>,
              stored @ [(toUserId, newSession)])"
proof -
  have "sendingChainKey session \<noteq> None"
    using assms(2)
    by (auto simp: establishSession_def Let_def initializeSession_def
        split: if_splits option.splits sum.splits)
  then obtain ck where ck: "sendingChainKey session = Some ck" by blast
  show ?thesis
    using assms by (simp add: sendMessage_def ratchetEncrypt_Some [OF ck] Let_def)
qed

lemma toy_establishSession:
  "establishSession toy_lib toy_world ''bob'' =
     (Inr (initializeSession toy_lib toy_world (replicate 32 0) (publicKey bob) True),
      [(''bob'', initializeSession toy_lib toy_world (replicate 32 0) (publicKey bob) True)])"
  by (simp add: establishSession_def Let_def verifySignedPreKey_def x3dhInitiator_def hkdf_zero
      slice_bytes_def new_Uint8Array_def toy_lib_def alice_def bob_def bob_signedPreKey_def
      bob_preKey_def bob_bundle_def toy_world_def)

text \<open>
  Alice's first message to Bob: \<open>x3dhInitiator\<close> returned the ephemeral key
  \<open>7, ..., 7\<close>; nothing of it is in the envelope or in the request.
\<close>

theorem first_message_is_plain_message_witness:
  "getSession toy_world ''bob'' = None \<and>
   x3dhInitiator toy_lib toy_world alice bob_bundle =
     Inr \<lparr>sharedSecret = replicate 32 0, ephemeralKey = replicate 32 7\<rparr> \<and>
   (\<exists>encrypted newSession.
      ratchetEncrypt toy_lib
        (initializeSession toy_lib toy_world (replicate 32 0) (publicKey bob) True) ''hi'' =
        Inr (encrypted, newSession) \<and>
      msgType encrypted = message \<and> baseKey encrypted = None \<and>
      sendMessage toy_lib toy_world ''bob'' ''hi'' ''text'' =
        (Inr \<lparr>p_toUserId = ''bob'', p_type = ''text'',
              p_encryptedContent = uint8ArrayToBase64 toy_lib (ciphertext encrypted),
              p_messageType = message, p_registrationId = 0,
              p_timestamp = dateNow toy_world\<rparr>,
         [(''bob'', initializeSession toy_lib toy_world (replicate 32 0) (publicKey bob) True)] @
         [(''bob'', newSession)]))"
proof -
  have g: "getSession toy_world ''bob'' = None"
    by (simp add: toy_world_def)
  have i: "x3dhInitiator toy_lib toy_world alice bob_bundle =
      Inr \<lparr>sharedSecret = replicate 32 0, ephemeralKey = replicate 32 7\<rparr>"
    by (simp add: fixtures x3dhInitiator_def hkdf_zero slice_bytes_def new_Uint8Array_def)
  show ?thesis
    using first_message_is_plain_message [OF g toy_establishSession, of "''hi''" "''text''"] g i
    by simp
qed

section \<open>A failed decryption\<close>

text \<open>
  Between the decryption and the new session \<open>ratchetDecrypt\<close> checks nothing: the MAC
  key is derived and never used, by \<open>ratchetEncrypt\<close> as little as here. Whatever string
  the cipher returns is the plaintext, and the session advances.
\<close>

lemma ratchetDecrypt_checks_nothing:
  assumes "receivingChainKey session = Some ck"
    and "aes256Decrypt L (TextDecoder_decode L (ciphertext encrypted))
           (replicate 32 0) (replicate 16 0) = Some q"
  shows "ratchetDecrypt L session encrypted =
           Inr (q, session\<lparr>receivingChainKey := Some (replicate 32 0),
                          previousCounter := messageNumber session,
                          messageNumber := messageNumber session + 1\<rparr>)"
  using assms
  by (simp add: ratchetDecrypt_def Let_def ratchetChainKey_zero deriveMessageKeys_zero)

text \<open>No plaintext encrypts to the empty content on the stand-in library.\<close>

lemma toy_ciphertext_nonempty: "TextEncoder_encode (aes256Encrypt toy_lib p k v) \<noteq> []"
  by (simp add: aes256Encrypt_def toy_lib_def TextEncoder_encode_def)

text \<open>
  C8, as the code has it. \<open>ratchetDecrypt\<close> fails only by throwing: for want of a
  receiving chain key, or with the error of CryptoJS on a text that decrypts to malformed
  UTF-8. When it throws it has built no new session and has written to no field or array
  of the session it was given, and \<open>decryptIncomingMessage\<close>, which read that session
  from the key storage, fails with the same error without a call of \<open>storeSession\<close>:
  the stored session keeps its receiving chain key, its message number and its previous
  counter.
\<close>

theorem thrown_decrypt_stores_nothing:
  assumes "ratchetDecrypt L session encrypted = Inl e"
  shows "(e = NoReceivingChain \<and> receivingChainKey session = None \<or>
          e = MalformedUtf8 \<and> receivingChainKey session \<noteq> None \<and>
            aes256Decrypt L (TextDecoder_decode L (ciphertext encrypted))
              (replicate 32 0) (replicate 16 0) = None) \<and>
         (\<forall>W encryptedData.
            getSession W (fromUserId encryptedData) = Some session \<longrightarrow>
            base64ToUint8Array L (d_encryptedContent encryptedData) = ciphertext encrypted \<longrightarrow>
            decryptIncomingMessage L W encryptedData = (Inl e, []))"
proof -
  have kind: "e = NoReceivingChain \<and> receivingChainKey session = None \<or>
      e = MalformedUtf8 \<and> receivingChainKey session \<noteq> None \<and>
        aes256Decrypt L (TextDecoder_decode L (ciphertext encrypted))
          (replicate 32 0) (replicate 16 0) = None"
    using assms
    by (auto simp: ratchetDecrypt_def Let_def ratchetChainKey_zero deriveMessageKeys_zero
        split: option.splits)
  have same: "ratchetDecrypt L session x = ratchetDecrypt L session encrypted"
    if "ciphertext x = ciphertext encrypted" for x
    unfolding ratchetDecrypt_def that by (rule refl)
  show ?thesis
  proof (intro conjI allI impI)
    show "e = NoReceivingChain \<and> receivingChainKey session = None \<or>
      e = MalformedUtf8 \<and> receivingChainKey session \<noteq> None \<and>
        aes256Decrypt L (TextDecoder_decode L (ciphertext encrypted))
          (replicate 32 0) (replicate 16 0) = None"
      by (rule kind)
  next
    fix W :: world and encryptedData :: IncomingData
    assume g: "getSession W (fromUserId encryptedData) = Some session"
      and c: "base64ToUint8Array L (d_encryptedContent encryptedData) = ciphertext encrypted"
    let ?env = "\<lparr>msgType = d_messageType encryptedData,
                 msgRegistrationId = d_registrationId encryptedData,
                 messageVersion = 1,
                 ciphertext = base64ToUint8Array L (d_encryptedContent encryptedData),
                 msgPreKeyId = None, msgSignedPreKeyId = None, baseKey = None,
                 msgIdentityKey = None\<rparr>"
    have "ratchetDecrypt L session ?env = Inl e"
      using same [of ?env] c assms by simp
    then show "decryptIncomingMessage L W encryptedData = (Inl e, [])"
      using g by (simp add: decryptIncomingMessage_def Let_def)
  qed
qed

lemma toy_garbled_bytes:
  "base64ToUint8Array toy_lib (d_encryptedContent garbled) = [0, 0, 0, 120]"
  by (simp add: base64ToUint8Array_def toy_lib_def garbled_def)

text \<open>
  Bob receives, from Alice, a content on which the cipher throws: the session he holds
  is not stored again.
\<close>

theorem thrown_decrypt_stores_nothing_witness:
  "ratchetDecrypt toy_lib bob_session
     \<lparr>msgType = message, msgRegistrationId = 0, messageVersion = 1,
      ciphertext = [0, 0, 0, 120], msgPreKeyId = None, msgSignedPreKeyId = None,
      baseKey = None, msgIdentityKey = None\<rparr> = Inl MalformedUtf8 \<and>
   getSession bob_world (fromUserId garbled) = Some bob_session \<and>
   base64ToUint8Array toy_lib (d_encryptedContent garbled) = [0, 0, 0, 120] \<and>
   decryptIncomingMessage toy_lib bob_world garbled = (Inl MalformedUtf8, [])"
proof -
  let ?m = "\<lparr>msgType = message, msgRegistrationId = 0, messageVersion = 1,
      ciphertext = [0, 0, 0, 120], msgPreKeyId = None, msgSignedPreKeyId = None,
      baseKey = None, msgIdentityKey = None\<rparr>"
  have f: "ratchetDecrypt toy_lib bob_session ?m = Inl MalformedUtf8"
    by (simp add: ratchetDecrypt_def Let_def bob_session_def initializeSession_def
        ratchetChainKey_zero deriveMessageKeys_zero aes256Decrypt_def toy_lib_def char_of_def)
  have g: "getSession bob_world (fromUserId garbled) = Some bob_session"
    by (simp add: bob_world_def toy_world_def garbled_def)
  have b: "base64ToUint8Array toy_lib (d_encryptedContent garbled) = ciphertext ?m"
    using toy_garbled_bytes by simp
  show ?thesis
    using thrown_decrypt_stores_nothing [OF f] f g b by simp
qed

text \<open>
  C8, as stated, fails. Bob receives, from Alice, an empty content. It is not the
  encryption of the empty string, nor of any plaintext (\<open>toy_ciphertext_nonempty\<close>), yet
  the cipher returns the empty string for it without an exception, as CryptoJS does.
  \<open>ratchetDecrypt\<close> returns a new session with the message number 1, and
  \<open>decryptIncomingMessage\<close> stores it in place of the session Bob held.
\<close>

theorem wrong_decrypt_advances_session:
  "base64ToUint8Array toy_lib (d_encryptedContent empty_content) = [] \<and>
   TextEncoder_encode (aes256Encrypt toy_lib '''' (replicate 32 0) (replicate 16 0)) \<noteq> [] \<and>
   getSession bob_world (fromUserId empty_content) = Some bob_session \<and>
   messageNumber bob_session = 0 \<and>
   ratchetDecrypt toy_lib bob_session
     \<lparr>msgType = message, msgRegistrationId = 0, messageVersion = 1,
      ciphertext = [], msgPreKeyId = None, msgSignedPreKeyId = None,
      baseKey = None, msgIdentityKey = None\<rparr> =
     Inr ('''', bob_session\<lparr>receivingChainKey := Some (replicate 32 0),
                            previousCounter := 0, messageNumber := 1\<rparr>) \<and>
   decryptIncomingMessage toy_lib bob_world empty_content =
     (Inr '''', [(''alice'', bob_session\<lparr>receivingChainKey := Some (replicate 32 0),
                                         previousCounter := 0, messageNumber := 1\<rparr>)])"
proof -
  have b: "base64ToUint8Array toy_lib (d_encryptedContent empty_content) = []"
    by (simp add: base64ToUint8Array_def toy_lib_def empty_content_def garbled_def)
  have g: "getSession bob_world (fromUserId empty_content) = Some bob_session"
    by (simp add: bob_world_def toy_world_def empty_content_def garbled_def)
  have n: "messageNumber bob_session = 0"
    by (simp add: bob_session_def initializeSession_def Let_def)
  have k: "receivingChainKey bob_session = Some (replicate 32 0)"
    by (simp add: bob_session_def initializeSession_def Let_def hkdf_zero)
  have d: "aes256Decrypt toy_lib (TextDecoder_decode toy_lib []) (replicate 32 0) (replicate 16 0)
           = Some ''''"
    by (simp add: aes256Decrypt_def toy_lib_def)
  have r: "ratchetDecrypt toy_lib bob_session
     \<lparr>msgType = m, msgRegistrationId = i, messageVersion = 1,
      ciphertext = [], msgPreKeyId = None, msgSignedPreKeyId = None,
      baseKey = None, msgIdentityKey = None\<rparr> =
     Inr ('''', bob_session\<lparr>receivingChainKey := Some (replicate 32 0),
                            previousCounter := 0, messageNumber := 1\<rparr>)" for m i
    using ratchetDecrypt_checks_nothing [OF k, of toy_lib _ "''''"] d n by simp
  have s: "decryptIncomingMessage toy_lib bob_world empty_content =
     (Inr '''', [(''alice'', bob_session\<lparr>receivingChainKey := Some (replicate 32 0),
                                         previousCounter := 0, messageNumber := 1\<rparr>)])"
    using g b r by (simp add: decryptIncomingMessage_def Let_def)
       (simp add: empty_content_def garbled_def)
  show ?thesis
    using b g n r s toy_ciphertext_nonempty by simp
qed

end
